theory Spec2Isabelle
  imports Main "HOL-Library.Sublist" "HOL-Library.Word"
begin

section \<open>The meeting-notes summarizer (\<open>lambda_function.py\<close>)\<close>

text \<open>
  The module is a request handler around library services: the MIME parser of the
  \<open>email\<close> package, the byte codecs, \<open>base64\<close>, \<open>json\<close>, and the two network
  clients (Bedrock \<open>converse\<close>, S3 \<open>put_object\<close>).  None of that code is part of the
  repository, so each service is a field of the record \<open>env\<close> and every theorem below
  holds for all implementations of them.  What the module itself does (the traversal of
  the parsed message, the conversation round trip, the two \<open>try\<close> blocks, the handler
  and its key) is embedded function by function, with the Python names; a leading
  underscore of a Python name is dropped, since an Isabelle name starts with a letter.
\<close>

subsection \<open>Python values\<close>

type_synonym bytes = "8 word list"

text \<open>
  An exception is its class name and \<open>str(e)\<close>.  Every value of this type stands for an
  instance of \<open>Exception\<close>, the class both \<open>except\<close> clauses of the module catch.
\<close>

datatype exn = Exception (exn_class: string) (exn_str: string)

text \<open>
  \<open>str.isspace\<close> on the characters below U+0100, and \<open>str.strip()\<close> with no argument.
\<close>

definition isspace :: "char \<Rightarrow> bool" where
  "isspace c = ((of_char c :: nat) \<in> {9, 10, 11, 12, 13, 28, 29, 30, 31, 32, 133, 160})"

definition strip :: "string \<Rightarrow> string" where
  "strip s = rev (dropWhile isspace (rev (dropWhile isspace s)))"

text \<open>\<open>str(n)\<close> of a Python \<open>int\<close>, which is also how an f-string renders it.\<close>

definition digit :: "nat \<Rightarrow> char" where
  "digit d = ''0123456789'' ! d"

fun str_nat :: "nat \<Rightarrow> string" where
  "str_nat n = (if n < 10 then [digit n] else str_nat (n div 10) @ [digit (n mod 10)])"

definition str_int :: "int \<Rightarrow> string" where
  "str_int i = (if i < 0 then CHR ''-'' # str_nat (nat (- i)) else str_nat (nat i))"

subsection \<open>Parsed MIME messages (\<open>email.message.Message\<close>)\<close>

text \<open>
  A parsed message is a tree.  A leaf carries the bytes \<open>get_payload(decode=True)\<close>
  returns for it; an inner node carries its sub-messages, and for it
  \<open>get_payload(decode=True)\<close> is \<open>None\<close>.  \<open>get_content_type\<close> and
  \<open>get_content_charset\<close> are what the methods of these names return.
\<close>

datatype message =
    Part (get_content_type: string) (get_content_charset: "string option") bytes
  | Multipart (get_content_type: string) (get_content_charset: "string option") "message list"

fun is_multipart :: "message \<Rightarrow> bool" where
  "is_multipart (Part t c p) = False"
| "is_multipart (Multipart t c ms) = True"

fun get_payload_decode :: "message \<Rightarrow> bytes option" where
  "get_payload_decode (Part t c p) = Some p"
| "get_payload_decode (Multipart t c ms) = None"

text \<open>\<open>Message.walk\<close>: the message itself, then the walk of each sub-message in order.\<close>

fun walk :: "message \<Rightarrow> message list" where
  "walk (Part t c p) = [Part t c p]"
| "walk (Multipart t c ms) = Multipart t c ms # concat (map walk ms)"

subsection \<open>Bedrock conversations\<close>

text \<open>
  A content block is a dictionary or any other value; a dictionary is the list of its
  items, with every value given by its \<open>str()\<close>.  A turn (a Bedrock message) has a role
  and may lack the key \<open>content\<close>.
\<close>

datatype content_block = Dict "(string \<times> string) list" | NotADict

record turn =
  role :: string
  content :: "content_block list option"

record converse_request =
  modelId :: string
  system :: "content_block list"
  messages :: "turn list"
  inferenceConfig :: "(string \<times> string) list"

record converse_response =
  output_message :: "turn option"

subsection \<open>The services and the mutable world\<close>

record datetime =
  year :: int
  month :: int
  day :: int

datatype console_line = Print string | Print_exc exn

text \<open>
  \<open>converse env n req\<close> is what the \<open>n\<close>-th call of the process to the completion
  capability does when it is sent \<open>req\<close>; \<open>put_object env b k v\<close> is \<open>None\<close> when the
  store accepts the write and the exception it raises otherwise.  \<open>json_dumps\<close> is
  \<open>json.dumps\<close> on a dictionary of strings.
\<close>

record env =
  message_from_bytes :: "bytes \<Rightarrow> exn + message"
  bytes_decode :: "bytes \<Rightarrow> string \<Rightarrow> exn + string"
  b64decode :: "string \<Rightarrow> exn + bytes"
  json_dumps :: "(string \<times> string) list \<Rightarrow> string"
  converse :: "nat \<Rightarrow> converse_request \<Rightarrow> exn + converse_response"
  put_object :: "string \<Rightarrow> string \<Rightarrow> string \<Rightarrow> exn option"

record world =
  converse_calls :: nat
  now :: datetime
  put_log :: "(string \<times> string \<times> string) list"
  console :: "console_line list"

record http_response =
  statusCode :: int
  body :: string

subsection \<open>\<open>NotesSummarizer\<close>: text extraction\<close>

definition PROMPT_SECTION_SEPARATOR :: string where
  "PROMPT_SECTION_SEPARATOR = CHR 0x0A # ''###'' @ [CHR 0x0A]"

definition SUMMARIZER_MODEL_ID :: string where
  "SUMMARIZER_MODEL_ID = ''deepseek.v3-v1:0''"

text \<open>
  \<open>x or "utf-8"\<close>: the default replaces \<open>None\<close> and the empty string alike.
\<close>

definition charset_or_utf8 :: "string option \<Rightarrow> string" where
  "charset_or_utf8 c = (case c of None \<Rightarrow> ''utf-8'' | Some s \<Rightarrow> if s = [] then ''utf-8'' else s)"

definition NoneType_decode :: exn where
  "NoneType_decode = Exception ''AttributeError''
     (CHR 0x27 # ''NoneType'' @ CHR 0x27 # '' object has no attribute '' @ CHR 0x27 # ''decode'' @ [CHR 0x27])"

definition extract_text_from_part :: "env \<Rightarrow> message \<Rightarrow> exn + string" where
  "extract_text_from_part env part =
     (if get_content_type part = ''text/plain'' then
        (case get_payload_decode part of
           None \<Rightarrow> Inl NoneType_decode
         | Some payload \<Rightarrow> bytes_decode env payload (charset_or_utf8 (get_content_charset part)))
      else Inr [])"

text \<open>The \<open>for\<close> loop over \<open>message.walk()\<close>, with the accumulator \<open>text\<close>.\<close>

fun extract_parts :: "env \<Rightarrow> message list \<Rightarrow> string \<Rightarrow> exn + string" where
  "extract_parts env [] text = Inr text"
| "extract_parts env (part # rest) text =
     (case extract_text_from_part env part of
        Inl e \<Rightarrow> Inl e
      | Inr s \<Rightarrow> extract_parts env rest (text @ s))"

definition extract_text_from_multidata :: "env \<Rightarrow> bytes \<Rightarrow> exn + string" where
  "extract_text_from_multidata env multidata =
     (case message_from_bytes env multidata of
        Inl e \<Rightarrow> Inl e
      | Inr message \<Rightarrow>
          (case (if is_multipart message then extract_parts env (walk message) []
                 else (case extract_text_from_part env message of
                         Inl e \<Rightarrow> Inl e
                       | Inr s \<Rightarrow> Inr ([] @ s))) of
             Inl e \<Rightarrow> Inl e
           | Inr text \<Rightarrow> Inr (if text \<noteq> [] then strip text else [])))"

subsection \<open>\<open>NotesSummarizer\<close>: the conversation round trip\<close>

text \<open>\<open>next((str(b["text"]) for b in content if isinstance(b, dict) and "text" in b), "")\<close>\<close>

definition block_text :: "content_block \<Rightarrow> string option" where
  "block_text b = (case b of Dict d \<Rightarrow> map_of d ''text'' | NotADict \<Rightarrow> None)"

fun first_text :: "content_block list \<Rightarrow> string" where
  "first_text [] = []"
| "first_text (b # bs) = (case block_text b of Some t \<Rightarrow> t | None \<Rightarrow> first_text bs)"

definition extract_text :: "turn \<Rightarrow> string" where
  "extract_text message = first_text (case content message of None \<Rightarrow> [] | Some c \<Rightarrow> c)"

definition system_prompt :: string where
  "system_prompt = ''You are a helpful secretary who excels at summarizing various notes. Be clear and concise.''"

definition call_bedrock :: "env \<Rightarrow> world \<Rightarrow> turn list \<Rightarrow> (exn + converse_response) \<times> world" where
  "call_bedrock env w msgs =
     (converse env (converse_calls w)
        \<lparr>modelId = SUMMARIZER_MODEL_ID,
         system = [Dict [(''text'', system_prompt)]],
         messages = msgs,
         inferenceConfig = [(''maxTokens'', ''1024''), (''temperature'', ''0.2'')]\<rparr>,
      w\<lparr>converse_calls := Suc (converse_calls w)\<rparr>)"

definition no_message_error :: exn where
  "no_message_error = Exception ''ValueError'' ''Bedrock response did not contain a message in output''"

text \<open>
  The list \<open>conversation\<close> is mutated in place by the Python; here the list after the
  call is the second component of the result.
\<close>

definition get_bedrock_response_and_append ::
  "env \<Rightarrow> world \<Rightarrow> turn list \<Rightarrow> (exn + turn) \<times> turn list \<times> world" where
  "get_bedrock_response_and_append env w conversation =
     (case call_bedrock env w conversation of
        (Inl e, w') \<Rightarrow> (Inl e, conversation, w')
      | (Inr response, w') \<Rightarrow>
          (case output_message response of
             None \<Rightarrow> (Inl no_message_error, conversation, w')
           | Some message \<Rightarrow> (Inr message, conversation @ [message], w')))"

subsection \<open>\<open>NotesSummarizer\<close>: the two stages\<close>

definition user_turn :: "string \<Rightarrow> turn" where
  "user_turn prompt = \<lparr>role = ''user'', content = Some [Dict [(''text'', prompt)]]\<rparr>"

definition file_name_prompt :: "string \<Rightarrow> string" where
  "file_name_prompt notes =
     ''Based on the following meeting notes, suggest a concise and descriptive file name for the summary.'' @ [CHR 0x0A] @
     ''The file name should be in lowercase, use hyphens instead of spaces, and end with .txt. '' @
     ''Avoid using special characters or punctuation other than hyphens.'' @ [CHR 0x0A] @
     ''Respond with only the file name, without any additional text or explanation.'' @ [CHR 0x0A] @
     ''Example 1:'' @ [CHR 0x0A] @
     ''Meeting Notes: '' @ [CHR 0x27] @ ''Discussed project timeline and assigned tasks to team members.'' @ [CHR 0x27, CHR 0x0A] @
     ''Suggested File Name: project-timeline-and-tasks-summary.txt'' @ [CHR 0x0A] @
     ''Example 2:'' @ [CHR 0x0A] @
     ''Meeting Notes: '' @ [CHR 0x27] @ ''Reviewed quarterly financial results and planned budget adjustments.'' @ [CHR 0x27, CHR 0x0A] @
     ''Suggested File Name: quarterly-financial-results-and-budget-planning-summary.txt'' @ [CHR 0x0A, CHR 0x0A] @
     ''Meeting Notes: '' @ [CHR 0x27] @ notes @ [CHR 0x27, CHR 0x0A] @
     ''Suggested File Name: ''"

definition log_error :: "string \<Rightarrow> exn \<Rightarrow> world \<Rightarrow> world" where
  "log_error label e w = w\<lparr>console := console w @ [Print (label @ exn_str e), Print_exc e]\<rparr>"

definition infer_meeting_notes_file_name :: "env \<Rightarrow> world \<Rightarrow> string \<Rightarrow> (exn + string) \<times> world" where
  "infer_meeting_notes_file_name env w notes =
     (let prompt = file_name_prompt notes;
          msgs = [] @ [user_turn prompt]
      in case get_bedrock_response_and_append env w msgs of
           (Inr response_message, msgs', w') \<Rightarrow> (Inr (extract_text response_message), w')
         | (Inl e, msgs', w') \<Rightarrow>
             (Inr ''meeting-notes-summary.txt'',
              log_error ''Error during Bedrock call for file name inference: '' e w'))"

definition summarization_prompt :: "string \<Rightarrow> string" where
  "summarization_prompt text =
     ''Please provide a concise summary of the following meeting notes, highlighting key points and action items:'' @
     PROMPT_SECTION_SEPARATOR @ text @ PROMPT_SECTION_SEPARATOR"

definition summarize_meeting_notes :: "env \<Rightarrow> world \<Rightarrow> bytes \<Rightarrow> (exn + string) \<times> world" where
  "summarize_meeting_notes env w notes =
     (case extract_text_from_multidata env notes of
        Inl e \<Rightarrow> (Inl e, w)
      | Inr text \<Rightarrow>
          (let msgs = [] @ [user_turn (summarization_prompt text)]
           in case get_bedrock_response_and_append env w msgs of
                (Inr response_message, msgs', w') \<Rightarrow> (Inr (extract_text response_message), w')
              | (Inl e, msgs', w') \<Rightarrow>
                  (Inr ''An error occurred while summarizing the meeting notes.'',
                   log_error ''Error during Bedrock call: '' e w')))"

subsection \<open>The handler\<close>

definition PARAM_TRANSCRIPT :: string where
  "PARAM_TRANSCRIPT = ''body''"

definition bucket_name :: string where
  "bucket_name = ''meeting-notes-summaries-bucket''"

definition validate_input :: "env \<Rightarrow> (string \<rightharpoonup> string) \<Rightarrow> http_response option" where
  "validate_input env body_data =
     (if PARAM_TRANSCRIPT \<notin> dom body_data then
        Some \<lparr>statusCode = 400,
              body = json_dumps env [(''error'', ''Missing required parameter: '' @ PARAM_TRANSCRIPT)]\<rparr>
      else None)"

text \<open>\<open>S3BucketManager.upload\<close>: one \<open>put_object\<close>; an accepted write is recorded.\<close>

definition upload :: "env \<Rightarrow> world \<Rightarrow> string \<Rightarrow> string \<Rightarrow> (exn + unit) \<times> world" where
  "upload env w key summarized_note =
     (case put_object env bucket_name key summarized_note of
        Some e \<Rightarrow> (Inl e, w)
      | None \<Rightarrow> (Inr (), w\<lparr>put_log := put_log w @ [(bucket_name, key, summarized_note)]\<rparr>))"

text \<open>The f-string \<open>f"{now.year}/{now.month}/{now.day}/{file_name}"\<close>.\<close>

definition s3_key :: "datetime \<Rightarrow> string \<Rightarrow> string" where
  "s3_key t file_name =
     str_int (year t) @ ''/'' @ str_int (month t) @ ''/'' @ str_int (day t) @ ''/'' @ file_name"

text \<open>The \<open>except Exception\<close> clause of the handler.\<close>

definition handler_except :: "env \<Rightarrow> world \<Rightarrow> exn \<Rightarrow> http_response \<times> world" where
  "handler_except env w e =
     (\<lparr>statusCode = 500, body = json_dumps env [(''error'', exn_str e)]\<rparr>,
      log_error ''Error in lambda_handler: '' e w)"

definition subscript :: "(string \<rightharpoonup> string) \<Rightarrow> string \<Rightarrow> exn + string" where
  "subscript d k =
     (case d k of
        None \<Rightarrow> Inl (Exception ''KeyError'' (CHR 0x27 # k @ [CHR 0x27]))
      | Some v \<Rightarrow> Inr v)"

definition lambda_handler :: "env \<Rightarrow> world \<Rightarrow> (string \<rightharpoonup> string) \<Rightarrow> http_response \<times> world" where
  "lambda_handler env w event =
     (case validate_input env event of
        Some validation_error \<Rightarrow> (validation_error, w)
      | None \<Rightarrow>
          (case subscript event PARAM_TRANSCRIPT of
             Inl e \<Rightarrow> handler_except env w e
           | Inr b64 \<Rightarrow>
               (case b64decode env b64 of
                  Inl e \<Rightarrow> handler_except env w e
                | Inr message \<Rightarrow>
                    if message = [] then
                      (\<lparr>statusCode = 400,
                        body = json_dumps env [(''error'', ''Transcript content is empty'')]\<rparr>, w)
                    else
                      (case summarize_meeting_notes env w message of
                         (Inl e, w1) \<Rightarrow> handler_except env w1 e
                       | (Inr summarized_note, w1) \<Rightarrow>
                           (case infer_meeting_notes_file_name env w1 summarized_note of
                              (Inl e, w2) \<Rightarrow> handler_except env w2 e
                            | (Inr file_name, w2) \<Rightarrow>
                                (case upload env w2 (s3_key (now w2) file_name) summarized_note of
                                   (Inl e, w3) \<Rightarrow> handler_except env w3 e
                                 | (Inr u, w3) \<Rightarrow>
                                     (\<lparr>statusCode = 200, body = summarized_note\<rparr>, w3)))))))"

subsection \<open>Test doubles for the services\<close>

text \<open>
  The theorems quantify over \<open>env\<close>.  To run the model on concrete requests the services
  are replaced by small doubles that agree with the Python libraries on the inputs used
  below: a parser that reads its input as a message without headers (one \<open>text/plain\<close>
  part, no charset, the input as payload), a codec that knows the ASCII range of UTF-8,
  a base64 decoder given by a table (the empty string, \<open>SGk=\<close> for \<open>b"Hi"\<close>, \<open>/w==\<close>
  for \<open>b"\xff"\<close>, and \<open>Incorrect padding\<close> for anything else, as for \<open>abc\<close>), a
  \<open>json.dumps\<close> for strings that need no escaping, and a store that accepts every
  write.  The completion capability is a parameter of the double.
\<close>

definition headerless_parser :: "bytes \<Rightarrow> exn + message" where
  "headerless_parser raw = Inr (Part ''text/plain'' None raw)"

text \<open>
  \<open>invalid_start_byte\<close> is the \<open>UnicodeDecodeError\<close> Python raises for \<open>b"\xff".decode("utf-8")\<close>,
  the one payload outside ASCII that the examples decode.
\<close>

definition invalid_start_byte :: exn where
  "invalid_start_byte = Exception ''UnicodeDecodeError''
     (CHR 0x27 # ''utf-8'' @ CHR 0x27 # '' codec can'' @ CHR 0x27 #
      ''t decode byte 0xff in position 0: invalid start byte'')"

definition ascii_codec :: "bytes \<Rightarrow> string \<Rightarrow> exn + string" where
  "ascii_codec b cs =
     (if cs \<noteq> ''utf-8'' then Inl (Exception ''LookupError'' (''unknown encoding: '' @ cs))
      else if list_all (\<lambda>x. x < 0x80) b then Inr (map (\<lambda>x. char_of (unat x)) b)
      else Inl invalid_start_byte)"

definition b64_table :: "string \<Rightarrow> exn + bytes" where
  "b64_table s =
     (if s = [] then Inr []
      else if s = ''SGk='' then Inr [0x48, 0x69]
      else if s = ''/w=='' then Inr [0xFF]
      else Inl (Exception ''binascii.Error'' ''Incorrect padding''))"

fun json_items :: "(string \<times> string) list \<Rightarrow> string" where
  "json_items [] = []"
| "json_items [(k, v)] = CHR 0x22 # k @ CHR 0x22 # '': '' @ CHR 0x22 # v @ [CHR 0x22]"
| "json_items ((k, v) # d) = CHR 0x22 # k @ CHR 0x22 # '': '' @ CHR 0x22 # v @ CHR 0x22 # '', '' @ json_items d"

definition json_plain :: "(string \<times> string) list \<Rightarrow> string" where
  "json_plain d = ''{'' @ json_items d @ ''}''"

definition test_env :: "(nat \<Rightarrow> converse_request \<Rightarrow> exn + converse_response) \<Rightarrow> env" where
  "test_env completion =
     \<lparr>message_from_bytes = headerless_parser, bytes_decode = ascii_codec,
      b64decode = b64_table, json_dumps = json_plain, converse = completion,
      put_object = (\<lambda>b k v. None)\<rparr>"

definition assistant_turn :: "string \<Rightarrow> turn" where
  "assistant_turn t = \<lparr>role = ''assistant'', content = Some [Dict [(''text'', t)]]\<rparr>"

definition service_down :: exn where
  "service_down = Exception ''ClientError'' ''ServiceUnavailableException''"

definition raising_completion :: "nat \<Rightarrow> converse_request \<Rightarrow> exn + converse_response" where
  "raising_completion n req = Inl service_down"

definition replying_completion :: "string \<Rightarrow> string \<Rightarrow> nat \<Rightarrow> converse_request \<Rightarrow> exn + converse_response" where
  "replying_completion first second n req =
     Inr \<lparr>output_message = Some (assistant_turn (if n = 0 then first else second))\<rparr>"

definition silent_completion :: "nat \<Rightarrow> converse_request \<Rightarrow> exn + converse_response" where
  "silent_completion n req = Inr \<lparr>output_message = None\<rparr>"

definition mixed_reply :: turn where
  "mixed_reply =
     \<lparr>role = ''assistant'',
      content = Some [NotADict, Dict [(''image'', ''png'')], Dict [(''text'', ''a b/c.txt'')],
                      Dict [(''text'', ''second'')]]\<rparr>"

definition mixed_completion :: "nat \<Rightarrow> converse_request \<Rightarrow> exn + converse_response" where
  "mixed_completion n req = Inr \<lparr>output_message = Some mixed_reply\<rparr>"

definition access_denied :: exn where
  "access_denied = Exception ''ClientError'' ''AccessDenied''"

definition refusing_store_env :: env where
  "refusing_store_env =
     (test_env (replying_completion ''SUMMARY'' ''my-file.txt''))\<lparr>put_object := (\<lambda>b k v. Some access_denied)\<rparr>"

definition w0 :: world where
  "w0 = \<lparr>converse_calls = 0, now = \<lparr>year = 2024, month = 3, day = 7\<rparr>, put_log = [], console = []\<rparr>"

text \<open>
  For the message with several parts the codec also knows \<open>iso-8859-1\<close>, in which
  every byte is the character of the same code.
\<close>

definition latin1_codec :: "bytes \<Rightarrow> string \<Rightarrow> exn + string" where
  "latin1_codec b cs =
     (if cs = ''iso-8859-1'' then Inr (map (\<lambda>x. char_of (unat x)) b) else ascii_codec b cs)"

definition nested_example :: message where
  "nested_example =
     Multipart ''multipart/mixed'' None
       [Part ''text/plain'' (Some ''utf-8'') [0x20, 0x41, 0x0A],
        Multipart ''multipart/alternative'' None
          [Part ''text/html'' None [0x3C, 0x62, 0x3E],
           Part ''text/plain'' None [0x42, 0x20]],
        Part ''application/pdf'' None [0x25, 0xFF],
        Part ''text/plain'' (Some ''iso-8859-1'') [0xE9, 0x74, 0xE9]]"

definition nested_env :: env where
  "nested_env =
     (test_env silent_completion)
       \<lparr>message_from_bytes := (\<lambda>raw. Inr nested_example), bytes_decode := latin1_codec\<rparr>"

declare str_nat.simps [simp del]

section \<open>Lemmas about the functions\<close>

lemma round_trip_cases:
  "get_bedrock_response_and_append env w conversation =
     (case fst (call_bedrock env w conversation) of
        Inl e \<Rightarrow> (Inl e, conversation, w\<lparr>converse_calls := Suc (converse_calls w)\<rparr>)
      | Inr response \<Rightarrow>
          (case output_message response of
             None \<Rightarrow> (Inl no_message_error, conversation, w\<lparr>converse_calls := Suc (converse_calls w)\<rparr>)
           | Some message \<Rightarrow>
               (Inr message, conversation @ [message], w\<lparr>converse_calls := Suc (converse_calls w)\<rparr>)))"
  by (simp add: get_bedrock_response_and_append_def call_bedrock_def split: sum.splits option.splits)

lemma first_text_skips:
  "\<forall>x \<in> set pre. block_text x = None \<Longrightarrow> first_text (pre @ rest) = first_text rest"
  by (induction pre) auto

lemma first_text_none:
  "\<forall>x \<in> set cs. block_text x = None \<Longrightarrow> first_text cs = []"
  by (induction cs) auto

lemma extract_parts_decoded:
  "list_all2 (\<lambda>p s. \<exists>payload. get_payload_decode p = Some payload
                  \<and> bytes_decode env payload
                        (case get_content_charset p of None \<Rightarrow> ''utf-8''
                         | Some cs \<Rightarrow> if cs = [] then ''utf-8'' else cs) = Inr s)
     (filter (\<lambda>p. get_content_type p = ''text/plain'') ps) decoded
   \<Longrightarrow> extract_parts env ps acc = Inr (acc @ concat decoded)"
proof (induction ps arbitrary: acc decoded)
  case Nil
  then show ?case by simp
next
  case (Cons part rest)
  show ?case
  proof (cases "get_content_type part = ''text/plain''")
    case True
    with Cons.prems obtain s decoded' payload where
      d: "decoded = s # decoded'"
      and p: "get_payload_decode part = Some payload"
         "bytes_decode env payload
            (case get_content_charset part of None \<Rightarrow> ''utf-8''
             | Some cs \<Rightarrow> if cs = [] then ''utf-8'' else cs) = Inr s"
      and r: "list_all2 (\<lambda>p s. \<exists>payload. get_payload_decode p = Some payload
                  \<and> bytes_decode env payload
                        (case get_content_charset p of None \<Rightarrow> ''utf-8''
                         | Some cs \<Rightarrow> if cs = [] then ''utf-8'' else cs) = Inr s)
                (filter (\<lambda>p. get_content_type p = ''text/plain'') rest) decoded'"
      by (auto simp: list_all2_Cons1)
    from True p have "extract_text_from_part env part = Inr s"
      by (simp add: extract_text_from_part_def charset_or_utf8_def)
    with Cons.IH [OF r, of "acc @ s"] d show ?thesis by simp
  next
    case False
    then have "extract_text_from_part env part = Inr []"
      by (simp add: extract_text_from_part_def)
    with Cons.IH [of decoded acc] Cons.prems False show ?thesis by simp
  qed
qed

lemma strip_Nil: "strip [] = []"
  by (simp add: strip_def)

lemma strip_or_empty: "(if text \<noteq> [] then strip text else []) = strip text"
  by (simp add: strip_Nil)

text \<open>
  \<open>strip\<close> removes whitespace at both ends and nothing else: what it returns is a
  segment of its argument between two runs of whitespace, and neither starts nor ends
  with a whitespace character.
\<close>

lemma strip_trims:
  "\<exists>pre post. s = pre @ strip s @ post
     \<and> (\<forall>c \<in> set pre. isspace c) \<and> (\<forall>c \<in> set post. isspace c)
     \<and> (strip s \<noteq> [] \<longrightarrow> \<not> isspace (hd (strip s)) \<and> \<not> isspace (last (strip s)))"
proof -
  define t where "t = dropWhile isspace s"
  define u where "u = dropWhile isspace (rev t)"
  have s: "s = takeWhile isspace s @ t"
    by (simp add: t_def)
  have "rev t = takeWhile isspace (rev t) @ u"
    by (simp add: u_def)
  then have "rev (rev t) = rev (takeWhile isspace (rev t) @ u)"
    by (rule arg_cong)
  then have t: "t = rev u @ rev (takeWhile isspace (rev t))"
    by simp
  have strip: "strip s = rev u"
    by (simp add: strip_def t_def u_def)
  have pre: "\<forall>c \<in> set (takeWhile isspace s). isspace c"
    by (auto dest: set_takeWhileD)
  have post: "\<forall>c \<in> set (rev (takeWhile isspace (rev t))). isspace c"
    by (auto dest: set_takeWhileD)
  have ends: "\<not> isspace (hd (rev u)) \<and> \<not> isspace (last (rev u))" if "rev u \<noteq> []"
  proof -
    from that have "u \<noteq> []" by simp
    then have "\<not> isspace (hd u)"
      unfolding u_def by (rule hd_dropWhile)
    with \<open>u \<noteq> []\<close> have l: "\<not> isspace (last (rev u))"
      by (simp add: last_rev)
    from t have "hd t = hd (rev u @ rev (takeWhile isspace (rev t)))"
      by (rule arg_cong)
    with that have h: "hd t = hd (rev u)"
      by (simp add: hd_append2)
    from t have "length t = length (rev u @ rev (takeWhile isspace (rev t)))"
      by (rule arg_cong)
    with that have "t \<noteq> []"
      by auto
    then have "\<not> isspace (hd t)"
      unfolding t_def by (rule hd_dropWhile)
    with h l show ?thesis by simp
  qed
  from s t have "s = takeWhile isspace s @ strip s @ rev (takeWhile isspace (rev t))"
    by (simp add: strip)
  with pre post ends show ?thesis
    unfolding strip by blast
qed

lemma extract_text_from_part_cong:
  "bytes_decode env' = bytes_decode env \<Longrightarrow> extract_text_from_part env' p = extract_text_from_part env p"
  by (simp add: extract_text_from_part_def split: option.split)

lemma extract_parts_cong:
  assumes "bytes_decode env' = bytes_decode env"
  shows "extract_parts env' ps acc = extract_parts env ps acc"
proof (induction ps arbitrary: acc)
  case Nil
  show ?case by simp
next
  case (Cons p ps)
  show ?case
    by (simp add: extract_text_from_part_cong [OF assms] Cons.IH split: sum.split)
qed

lemma summarize_after_extraction:
  "extract_text_from_multidata env raw = Inr text \<Longrightarrow>
   summarize_meeting_notes env w raw =
     (case get_bedrock_response_and_append env w [user_turn (summarization_prompt text)] of
        (Inr response_message, msgs', w') \<Rightarrow> (Inr (extract_text response_message), w')
      | (Inl e, msgs', w') \<Rightarrow>
          (Inr ''An error occurred while summarizing the meeting notes.'',
           log_error ''Error during Bedrock call: '' e w'))"
  by (simp add: summarize_meeting_notes_def)

lemma infer_cases:
  "infer_meeting_notes_file_name env w notes =
     (case fst (call_bedrock env w [user_turn (file_name_prompt notes)]) of
        Inl e \<Rightarrow>
          (Inr ''meeting-notes-summary.txt'',
           log_error ''Error during Bedrock call for file name inference: '' e
             (w\<lparr>converse_calls := Suc (converse_calls w)\<rparr>))
      | Inr response \<Rightarrow>
          (case output_message response of
             None \<Rightarrow>
               (Inr ''meeting-notes-summary.txt'',
                log_error ''Error during Bedrock call for file name inference: '' no_message_error
                  (w\<lparr>converse_calls := Suc (converse_calls w)\<rparr>))
           | Some reply \<Rightarrow> (Inr (extract_text reply), w\<lparr>converse_calls := Suc (converse_calls w)\<rparr>)))"
  unfolding infer_meeting_notes_file_name_def Let_def round_trip_cases
  by (simp split: sum.split option.split)

lemma summarize_cases:
  "summarize_meeting_notes env w raw =
     (case extract_text_from_multidata env raw of
        Inl e \<Rightarrow> (Inl e, w)
      | Inr text \<Rightarrow>
          (case fst (call_bedrock env w [user_turn (summarization_prompt text)]) of
             Inl e \<Rightarrow>
               (Inr ''An error occurred while summarizing the meeting notes.'',
                log_error ''Error during Bedrock call: '' e (w\<lparr>converse_calls := Suc (converse_calls w)\<rparr>))
           | Inr response \<Rightarrow>
               (case output_message response of
                  None \<Rightarrow>
                    (Inr ''An error occurred while summarizing the meeting notes.'',
                     log_error ''Error during Bedrock call: '' no_message_error
                       (w\<lparr>converse_calls := Suc (converse_calls w)\<rparr>))
                | Some reply \<Rightarrow> (Inr (extract_text reply), w\<lparr>converse_calls := Suc (converse_calls w)\<rparr>))))"
  unfolding summarize_meeting_notes_def Let_def round_trip_cases
  by (simp split: sum.split option.split)

lemma infer_never_raises:
  "\<exists>file_name w'. infer_meeting_notes_file_name env w notes = (Inr file_name, w')"
  by (simp add: infer_cases split: sum.split option.split)

lemma handler_after_decoding:
  assumes "event ''body'' = Some s" and "b64decode env s = Inr raw" and "raw \<noteq> []"
  shows "lambda_handler env w event =
     (case summarize_meeting_notes env w raw of
        (Inl e, w1) \<Rightarrow> handler_except env w1 e
      | (Inr summarized_note, w1) \<Rightarrow>
          (case infer_meeting_notes_file_name env w1 summarized_note of
             (Inl e, w2) \<Rightarrow> handler_except env w2 e
           | (Inr file_name, w2) \<Rightarrow>
               (case upload env w2 (s3_key (now w2) file_name) summarized_note of
                  (Inl e, w3) \<Rightarrow> handler_except env w3 e
                | (Inr u, w3) \<Rightarrow> (\<lparr>statusCode = 200, body = summarized_note\<rparr>, w3))))"
  using assms
  by (simp add: lambda_handler_def validate_input_def PARAM_TRANSCRIPT_def subscript_def dom_def)

lemma stages_keep_the_store:
  "put_log (snd (summarize_meeting_notes env w raw)) = put_log w"
  "now (snd (summarize_meeting_notes env w raw)) = now w"
  "put_log (snd (infer_meeting_notes_file_name env w notes)) = put_log w"
  "now (snd (infer_meeting_notes_file_name env w notes)) = now w"
  by (simp_all add: summarize_cases infer_cases log_error_def split: sum.split option.split)

lemma str_nat_small: "n < 10 \<Longrightarrow> str_nat n = [digit n]"
  by (simp add: str_nat.simps [of n])

lemma str_nat_large: "\<not> n < 10 \<Longrightarrow> str_nat n = str_nat (n div 10) @ [digit (n mod 10)]"
  by (simp add: str_nat.simps [of n])

lemma str_nat_not_Nil: "str_nat n \<noteq> []"
  by (cases "n < 10") (simp_all add: str_nat_small str_nat_large)

lemma digit_not_zero: "0 < n \<Longrightarrow> n < 10 \<Longrightarrow> digit n \<noteq> CHR ''0''"
proof -
  assume "0 < n" "n < 10"
  then have "n \<in> {1, 2, 3, 4, 5, 6, 7, 8, 9}" by auto
  then show ?thesis by (auto simp: digit_def)
qed

lemma hd_str_nat: "0 < n \<Longrightarrow> hd (str_nat n) \<noteq> CHR ''0''"
proof (induction n rule: str_nat.induct)
  case (1 n)
  show ?case
  proof (cases "n < 10")
    case True
    with "1.prems" show ?thesis by (simp add: str_nat_small digit_not_zero)
  next
    case False
    then have "0 < n div 10" by simp
    with "1.IH" False have "hd (str_nat (n div 10)) \<noteq> CHR ''0''" by simp
    then show ?thesis using False by (simp add: str_nat_large str_nat_not_Nil)
  qed
qed

lemma length_str_nat_two: "10 \<le> n \<Longrightarrow> n < 100 \<Longrightarrow> length (str_nat n) = 2"
proof -
  assume a: "10 \<le> n" "n < 100"
  then have "n div 10 < 10" by simp
  with a show ?thesis by (simp add: str_nat_large str_nat_small)
qed

lemma str_int_nonneg: "0 \<le> i \<Longrightarrow> str_int i = str_nat (nat i)"
  by (simp add: str_int_def)

lemma unpadded:
  assumes "1 \<le> i" and "i \<le> 99"
  shows "length (str_int i) = (if i < 10 then 1 else 2) \<and> hd (str_int i) \<noteq> CHR ''0''"
proof -
  from assms have n: "0 < nat i" "nat i < 100" by simp_all
  show ?thesis
  proof (cases "i < 10")
    case True
    then have "nat i < 10" by simp
    with n assms show ?thesis by (simp add: str_int_nonneg str_nat_small digit_not_zero)
  next
    case False
    then have "10 \<le> nat i" by simp
    with n assms False show ?thesis
      by (simp add: str_int_nonneg length_str_nat_two hd_str_nat)
  qed
qed

section \<open>The model on the test doubles\<close>

lemma char_of_H: "char_of (72::nat) = CHR ''H''" "char_of (105::nat) = CHR ''i''"
  by code_simp+

lemma char_of_AB: "char_of (32::nat) = CHR '' ''" "char_of (65::nat) = CHR ''A''"
  "char_of (10::nat) = CHR 0x0A" "char_of (66::nat) = CHR ''B''"
  by code_simp+

lemma char_of_latin1: "char_of (233::nat) = CHR 0xE9" "char_of (116::nat) = CHR ''t''"
  by code_simp+

lemma test_env_converse: "converse (test_env completion) = completion"
  by (simp add: test_env_def)

lemma test_env_fields:
  "message_from_bytes (test_env completion) = headerless_parser"
  "bytes_decode (test_env completion) = ascii_codec"
  "b64decode (test_env completion) = b64_table"
  "json_dumps (test_env completion) = json_plain"
  "put_object (test_env completion) = (\<lambda>b k v. None)"
  by (simp_all add: test_env_def)

lemma refusing_store_env_fields:
  "b64decode refusing_store_env = b64_table"
  "json_dumps refusing_store_env = json_plain"
  "put_object refusing_store_env = (\<lambda>b k v. Some access_denied)"
  by (simp_all add: refusing_store_env_def test_env_def)

lemma b64_table_examples:
  "b64_table [] = Inr []"
  "b64_table ''SGk='' = Inr [0x48, 0x69]"
  "b64_table ''/w=='' = Inr [0xFF]"
  "b64_table ''abc'' = Inl (Exception ''binascii.Error'' ''Incorrect padding'')"
  by (simp_all add: b64_table_def)

lemma w0_fields:
  "now (w0\<lparr>converse_calls := n\<rparr>) = \<lparr>year = 2024, month = 3, day = 7\<rparr>"
  "put_log (w0\<lparr>converse_calls := n\<rparr>) = []"
  "converse_calls w0 = 0"
  by (simp_all add: w0_def)

lemma hi_extracted_by:
  "message_from_bytes env = headerless_parser \<Longrightarrow> bytes_decode env = ascii_codec \<Longrightarrow>
   extract_text_from_multidata env [0x48, 0x69] = Inr ''Hi''"
  by (simp add: extract_text_from_multidata_def extract_text_from_part_def charset_or_utf8_def
        headerless_parser_def ascii_codec_def strip_def isspace_def char_of_H)

lemma hi_extracted:
  "extract_text_from_multidata (test_env completion) [0x48, 0x69] = Inr ''Hi''"
  by (simp add: hi_extracted_by test_env_def)

lemma ff_not_extracted:
  "extract_text_from_multidata (test_env completion) [0xFF] = Inl invalid_start_byte"
  by (simp add: extract_text_from_multidata_def extract_text_from_part_def charset_or_utf8_def
        test_env_def headerless_parser_def ascii_codec_def)

lemma summary_of_hi:
  "summarize_meeting_notes (test_env (replying_completion ''SUMMARY'' f)) w0 [0x48, 0x69]
     = (Inr ''SUMMARY'', w0\<lparr>converse_calls := 1\<rparr>)"
  by (simp add: summarize_cases hi_extracted call_bedrock_def test_env_converse
        replying_completion_def assistant_turn_def extract_text_def block_text_def w0_fields)

lemma file_name_of_summary:
  "infer_meeting_notes_file_name (test_env (replying_completion ''SUMMARY'' f)) (w0\<lparr>converse_calls := Suc 0\<rparr>) ''SUMMARY''
     = (Inr f, w0\<lparr>converse_calls := 2\<rparr>)"
  by (simp add: infer_cases call_bedrock_def test_env_converse
        replying_completion_def assistant_turn_def extract_text_def block_text_def w0_fields)

lemma refusing_store_env_stages:
  "summarize_meeting_notes refusing_store_env w0 [0x48, 0x69] = (Inr ''SUMMARY'', w0\<lparr>converse_calls := 1\<rparr>)"
  "infer_meeting_notes_file_name refusing_store_env (w0\<lparr>converse_calls := Suc 0\<rparr>) ''SUMMARY''
     = (Inr ''my-file.txt'', w0\<lparr>converse_calls := 2\<rparr>)"
proof -
  let ?E = "test_env (replying_completion ''SUMMARY'' ''my-file.txt'')"
  have parser: "message_from_bytes refusing_store_env = message_from_bytes ?E"
    and codec: "bytes_decode refusing_store_env = bytes_decode ?E"
    and completion: "converse refusing_store_env = converse ?E"
    by (simp_all add: refusing_store_env_def)
  have "extract_text_from_multidata refusing_store_env [0x48, 0x69] = Inr ''Hi''"
    by (rule hi_extracted_by) (simp_all add: refusing_store_env_def test_env_def)
  then show "summarize_meeting_notes refusing_store_env w0 [0x48, 0x69] = (Inr ''SUMMARY'', w0\<lparr>converse_calls := 1\<rparr>)"
    by (simp add: summarize_cases call_bedrock_def completion test_env_converse
        replying_completion_def assistant_turn_def extract_text_def block_text_def w0_fields)
  show "infer_meeting_notes_file_name refusing_store_env (w0\<lparr>converse_calls := Suc 0\<rparr>) ''SUMMARY''
     = (Inr ''my-file.txt'', w0\<lparr>converse_calls := 2\<rparr>)"
    by (simp add: infer_cases call_bedrock_def completion test_env_converse
        replying_completion_def assistant_turn_def extract_text_def block_text_def w0_fields)
qed

text \<open>
  End to end: a payload \<open>b"Hi"\<close>, a model that answers \<open>SUMMARY\<close> and then
  \<open>my-file.txt\<close>, and a store that accepts the write give status 200 with the summary
  as body, two completion calls, and one write under the key of the day.
\<close>

lemma end_to_end:
  "lambda_handler (test_env (replying_completion ''SUMMARY'' ''my-file.txt'')) w0 [''body'' \<mapsto> ''SGk='']
     = (\<lparr>statusCode = 200, body = ''SUMMARY''\<rparr>,
        w0\<lparr>converse_calls := 2,
           put_log := [(''meeting-notes-summaries-bucket'', ''2024/3/7/my-file.txt'', ''SUMMARY'')]\<rparr>)"
  by (simp add: handler_after_decoding [where s = "''SGk=''" and raw = "[0x48, 0x69]"]
        test_env_fields b64_table_examples summary_of_hi file_name_of_summary upload_def
        bucket_name_def s3_key_def str_int_def str_nat.simps digit_def w0_fields)

section \<open>The conversation round trip\<close>

text \<open>
  Claim C8.  A round trip that succeeds appends exactly one turn, the reply of the model,
  to the end of the conversation: the list is one longer, its last element is the reply
  the capability sent, and every earlier turn is where and what it was.  Whether the
  round trip succeeds or not, the conversation before the call is a prefix of the
  conversation after it, so no turn is ever removed or rewritten.
\<close>

theorem C8_round_trip_appends_one_turn:
  "prefix conversation (fst (snd (get_bedrock_response_and_append env w conversation)))
   \<and> (\<forall>reply conversation' w'.
         get_bedrock_response_and_append env w conversation = (Inr reply, conversation', w') \<longrightarrow>
           conversation' = conversation @ [reply]
         \<and> length conversation' = Suc (length conversation)
         \<and> (\<forall>i < length conversation. conversation' ! i = conversation ! i)
         \<and> (\<exists>response. fst (call_bedrock env w conversation) = Inr response
                       \<and> output_message response = Some reply))"
  by (auto simp: round_trip_cases nth_append split: sum.splits option.splits)

theorem C8_round_trip_appends_one_turn_witness:
  "get_bedrock_response_and_append (test_env (replying_completion ''SUMMARY'' ''my-file.txt'')) w0
       [user_turn ''notes'']
     = (Inr (assistant_turn ''SUMMARY''), [user_turn ''notes'', assistant_turn ''SUMMARY''],
        w0\<lparr>converse_calls := 1\<rparr>)
   \<and> prefix [user_turn ''notes''] [user_turn ''notes'', assistant_turn ''SUMMARY'']
   \<and> length [user_turn ''notes'', assistant_turn ''SUMMARY''] = Suc (length [user_turn ''notes''])"
proof -
  have run: "get_bedrock_response_and_append (test_env (replying_completion ''SUMMARY'' ''my-file.txt'')) w0
       [user_turn ''notes'']
     = (Inr (assistant_turn ''SUMMARY''), [user_turn ''notes'', assistant_turn ''SUMMARY''],
        w0\<lparr>converse_calls := 1\<rparr>)"
    by (simp add: round_trip_cases call_bedrock_def test_env_def replying_completion_def w0_def)
  from C8_round_trip_appends_one_turn
    [of "[user_turn ''notes'']" "test_env (replying_completion ''SUMMARY'' ''my-file.txt'')" w0]
  have "length [user_turn ''notes'', assistant_turn ''SUMMARY''] = Suc (length [user_turn ''notes''])"
    using run by blast
  then show ?thesis using run by simp
qed

text \<open>
  Claim C4.  When the capability answers, the round trip fails with the no-reply error
  (the \<open>ValueError\<close> of the source) exactly when the response holds no message.  When it
  holds one, that message is returned, and the text read from it is the text of the
  first block that carries a \<open>text\<close> field: blocks without one before it are skipped,
  and a reply none of whose blocks carries one gives the empty string, not an error.
\<close>

theorem C4_no_reply_error_and_reply_text:
  assumes "fst (call_bedrock env w conversation) = Inr response"
  shows "(fst (get_bedrock_response_and_append env w conversation) = Inl no_message_error
            \<longleftrightarrow> output_message response = None)
       \<and> (\<forall>reply blocks. output_message response = Some reply
             \<and> blocks = (case content reply of None \<Rightarrow> [] | Some c \<Rightarrow> c) \<longrightarrow>
             fst (get_bedrock_response_and_append env w conversation) = Inr reply
           \<and> ((\<forall>b \<in> set blocks. block_text b = None) \<longrightarrow> extract_text reply = [])
           \<and> (\<forall>skipped b t later. blocks = skipped @ b # later
                  \<and> (\<forall>x \<in> set skipped. block_text x = None) \<and> block_text b = Some t
                  \<longrightarrow> extract_text reply = t))"
  using assms
  by (auto simp: round_trip_cases extract_text_def first_text_skips first_text_none
           split: option.splits)

theorem C4_no_reply_error_and_reply_text_witness:
  "fst (call_bedrock (test_env mixed_completion) w0 [user_turn ''notes''])
     = Inr \<lparr>output_message = Some mixed_reply\<rparr>
   \<and> fst (get_bedrock_response_and_append (test_env mixed_completion) w0 [user_turn ''notes''])
     = Inr mixed_reply
   \<and> extract_text mixed_reply = ''a b/c.txt''
   \<and> fst (call_bedrock (test_env silent_completion) w0 [user_turn ''notes''])
     = Inr \<lparr>output_message = None\<rparr>
   \<and> fst (get_bedrock_response_and_append (test_env silent_completion) w0 [user_turn ''notes''])
     = Inl no_message_error"
proof -
  have mixed: "fst (call_bedrock (test_env mixed_completion) w0 [user_turn ''notes''])
     = Inr \<lparr>output_message = Some mixed_reply\<rparr>"
    by (simp add: call_bedrock_def test_env_converse mixed_completion_def)
  have silent: "fst (call_bedrock (test_env silent_completion) w0 [user_turn ''notes''])
     = Inr \<lparr>output_message = None\<rparr>"
    by (simp add: call_bedrock_def test_env_converse silent_completion_def)
  note m = C4_no_reply_error_and_reply_text [OF mixed]
  from m have returned:
    "fst (get_bedrock_response_and_append (test_env mixed_completion) w0 [user_turn ''notes''])
       = Inr mixed_reply"
    by simp
  from m have "\<forall>skipped b t later.
      (case content mixed_reply of None \<Rightarrow> [] | Some c \<Rightarrow> c) = skipped @ b # later
      \<and> (\<forall>x \<in> set skipped. block_text x = None) \<and> block_text b = Some t
      \<longrightarrow> extract_text mixed_reply = t"
    by simp
  from this [rule_format, where skipped = "[NotADict, Dict [(''image'', ''png'')]]"
      and b = "Dict [(''text'', ''a b/c.txt'')]" and later = "[Dict [(''text'', ''second'')]]"
      and t = "''a b/c.txt''"]
  have first: "extract_text mixed_reply = ''a b/c.txt''"
    by (simp add: mixed_reply_def block_text_def)
  from C4_no_reply_error_and_reply_text [OF silent]
  have "fst (get_bedrock_response_and_append (test_env silent_completion) w0 [user_turn ''notes''])
     = Inl no_message_error"
    by simp
  with mixed silent returned first show ?thesis by simp
qed

section \<open>Text extraction\<close>

text \<open>
  Claim C3.  Let \<open>m\<close> be the parsed message.  The parts looked at are the walk of \<open>m\<close>
  when \<open>m\<close> is multipart (document order, nested multiparts included) and \<open>m\<close> alone
  otherwise.  Whenever \<open>decoded\<close> lists, in that order, the payloads of exactly the parts
  whose content type is \<open>text/plain\<close>, each decoded with the charset its part declares,
  or with UTF-8 when the part declares none (no charset, or an empty one), the
  extracted text is the concatenation of \<open>decoded\<close> with the surrounding whitespace
  stripped; parts of any other type contribute nothing.  When no part is \<open>text/plain\<close>
  the result is the empty string.  The charset is written out in the statement: it is
  the value of \<open>get_content_charset\<close> itself, not a function of the model.
\<close>

theorem C3_extract_concatenates_text_plain_parts:
  assumes parsed: "message_from_bytes env raw = Inr m"
  shows "(\<forall>decoded.
            list_all2 (\<lambda>p s. \<exists>payload. get_payload_decode p = Some payload
                         \<and> bytes_decode env payload
                               (case get_content_charset p of None \<Rightarrow> ''utf-8''
                                | Some cs \<Rightarrow> if cs = [] then ''utf-8'' else cs) = Inr s)
              (filter (\<lambda>p. get_content_type p = ''text/plain'') (if is_multipart m then walk m else [m]))
              decoded
            \<longrightarrow> extract_text_from_multidata env raw = Inr (strip (concat decoded)))
       \<and> (filter (\<lambda>p. get_content_type p = ''text/plain'') (if is_multipart m then walk m else [m]) = []
            \<longrightarrow> extract_text_from_multidata env raw = Inr [])"
proof -
  have single: "(case extract_text_from_part env m of Inl e \<Rightarrow> Inl e | Inr s \<Rightarrow> Inr ([] @ s))
      = extract_parts env [m] []"
    by (simp split: sum.splits)
  have run: "extract_text_from_multidata env raw =
      (case extract_parts env (if is_multipart m then walk m else [m]) [] of
         Inl e \<Rightarrow> Inl e
       | Inr text \<Rightarrow> Inr (strip text))"
    unfolding extract_text_from_multidata_def parsed single strip_or_empty
    by (simp split: sum.splits)
  have main: "extract_text_from_multidata env raw = Inr (strip (concat decoded))"
    if "list_all2 (\<lambda>p s. \<exists>payload. get_payload_decode p = Some payload
                         \<and> bytes_decode env payload
                               (case get_content_charset p of None \<Rightarrow> ''utf-8''
                                | Some cs \<Rightarrow> if cs = [] then ''utf-8'' else cs) = Inr s)
              (filter (\<lambda>p. get_content_type p = ''text/plain'') (if is_multipart m then walk m else [m]))
              decoded" for decoded
    using extract_parts_decoded [OF that, of "[]"] by (simp add: run)
  have "extract_text_from_multidata env raw = Inr []"
    if "filter (\<lambda>p. get_content_type p = ''text/plain'') (if is_multipart m then walk m else [m]) = []"
    using main [of "[]"] that by (simp add: strip_Nil)
  with main show ?thesis by blast
qed

text \<open>
  The witness has three \<open>text/plain\<close> parts: one declaring \<open>utf-8\<close>, one nested part
  declaring nothing, and one declaring \<open>iso-8859-1\<close> whose payload \<open>b"\xe9t\xe9"\<close> is
  not valid UTF-8 and decodes only with the charset it declares.
\<close>

theorem C3_extract_concatenates_text_plain_parts_witness:
  "message_from_bytes nested_env [0x4D] = Inr nested_example
   \<and> is_multipart nested_example
   \<and> filter (\<lambda>p. get_content_type p = ''text/plain'') (walk nested_example)
       = [Part ''text/plain'' (Some ''utf-8'') [0x20, 0x41, 0x0A],
          Part ''text/plain'' None [0x42, 0x20],
          Part ''text/plain'' (Some ''iso-8859-1'') [0xE9, 0x74, 0xE9]]
   \<and> bytes_decode nested_env [0x20, 0x41, 0x0A] ''utf-8'' = Inr (CHR '' '' # CHR ''A'' # [CHR 0x0A])
   \<and> bytes_decode nested_env [0x42, 0x20] ''utf-8'' = Inr ''B ''
   \<and> bytes_decode nested_env [0xE9, 0x74, 0xE9] ''iso-8859-1'' = Inr [CHR 0xE9, CHR ''t'', CHR 0xE9]
   \<and> isl (bytes_decode nested_env [0xE9, 0x74, 0xE9] ''utf-8'')
   \<and> extract_text_from_multidata nested_env [0x4D]
       = Inr (CHR ''A'' # CHR 0x0A # ''B '' @ [CHR 0xE9, CHR ''t'', CHR 0xE9])"
proof -
  have parsed: "message_from_bytes nested_env [0x4D] = Inr nested_example"
    by (simp add: nested_env_def)
  have parts: "filter (\<lambda>p. get_content_type p = ''text/plain'')
        (if is_multipart nested_example then walk nested_example else [nested_example])
       = [Part ''text/plain'' (Some ''utf-8'') [0x20, 0x41, 0x0A],
          Part ''text/plain'' None [0x42, 0x20],
          Part ''text/plain'' (Some ''iso-8859-1'') [0xE9, 0x74, 0xE9]]"
    by (simp add: nested_example_def)
  have codec: "bytes_decode nested_env [0x20, 0x41, 0x0A] ''utf-8'' = Inr (CHR '' '' # CHR ''A'' # [CHR 0x0A])"
    "bytes_decode nested_env [0x42, 0x20] ''utf-8'' = Inr ''B ''"
    "bytes_decode nested_env [0xE9, 0x74, 0xE9] ''iso-8859-1'' = Inr [CHR 0xE9, CHR ''t'', CHR 0xE9]"
    "isl (bytes_decode nested_env [0xE9, 0x74, 0xE9] ''utf-8'')"
    by (simp_all add: nested_env_def latin1_codec_def ascii_codec_def char_of_AB char_of_latin1)
  have decoded: "list_all2 (\<lambda>p s. \<exists>payload. get_payload_decode p = Some payload
                         \<and> bytes_decode nested_env payload
                               (case get_content_charset p of None \<Rightarrow> ''utf-8''
                                | Some cs \<Rightarrow> if cs = [] then ''utf-8'' else cs) = Inr s)
       (filter (\<lambda>p. get_content_type p = ''text/plain'')
          (if is_multipart nested_example then walk nested_example else [nested_example]))
       [CHR '' '' # CHR ''A'' # [CHR 0x0A], ''B '', [CHR 0xE9, CHR ''t'', CHR 0xE9]]"
    unfolding parts by (simp add: codec)
  from C3_extract_concatenates_text_plain_parts [OF parsed] decoded
  have "extract_text_from_multidata nested_env [0x4D]
      = Inr (strip (concat [CHR '' '' # CHR ''A'' # [CHR 0x0A], ''B '', [CHR 0xE9, CHR ''t'', CHR 0xE9]]))"
    by blast
  then have "extract_text_from_multidata nested_env [0x4D]
      = Inr (CHR ''A'' # CHR 0x0A # ''B '' @ [CHR 0xE9, CHR ''t'', CHR 0xE9])"
    by (simp add: strip_def isspace_def)
  with parsed parts codec show ?thesis by (simp add: nested_example_def)
qed

text \<open>
  Claim C7.  Text extraction is a function of the payload: it takes no part of the
  mutable world, and of the services it consults only the MIME parser and the codec.
  So two runs on the same bytes return the same result (the same string, or the same
  exception), whatever the rest of the environment (completion capability, store,
  clock, base64, JSON) did or became between them.
\<close>

theorem C7_extraction_depends_on_the_bytes_only:
  assumes parser: "message_from_bytes env' = message_from_bytes env"
    and codec: "bytes_decode env' = bytes_decode env"
  shows "extract_text_from_multidata env' b = extract_text_from_multidata env b"
  unfolding extract_text_from_multidata_def parser
    extract_text_from_part_cong [OF codec] extract_parts_cong [OF codec]
  by (rule refl)

theorem C7_extraction_depends_on_the_bytes_only_witness:
  "extract_text_from_multidata (test_env raising_completion) [0x48, 0x69]
     = extract_text_from_multidata refusing_store_env [0x48, 0x69]
   \<and> extract_text_from_multidata refusing_store_env [0x48, 0x69] = Inr ''Hi''
   \<and> converse (test_env raising_completion) \<noteq> converse refusing_store_env"
proof -
  have parser: "message_from_bytes (test_env raising_completion) = message_from_bytes refusing_store_env"
    and codec: "bytes_decode (test_env raising_completion) = bytes_decode refusing_store_env"
    by (simp_all add: refusing_store_env_def test_env_def)
  have differ: "converse (test_env raising_completion) 0 undefined \<noteq> converse refusing_store_env 0 undefined"
    by (simp add: refusing_store_env_def test_env_def raising_completion_def replying_completion_def)
  from C7_extraction_depends_on_the_bytes_only [OF parser codec, of "[0x48, 0x69]"] differ
  show ?thesis by (auto simp: hi_extracted)
qed

section \<open>The two stages\<close>

text \<open>
  Claim C1, as amended.  Suppose every call to the completion capability raises.  Then
  for every payload whose text extraction succeeds \<open>summarize_meeting_notes\<close> returns
  exactly the summarization fallback, and for every notes string, with no condition on
  any payload, \<open>infer_meeting_notes_file_name\<close> returns exactly the file-name fallback;
  neither raises.  (Extraction runs before the \<open>try\<close> block, so a payload whose
  extraction fails is outside the first half.)
\<close>

theorem C1_fallback_strings:
  assumes raises: "\<forall>n req. \<exists>e. converse env n req = Inl e"
  shows "(\<forall>text. extract_text_from_multidata env raw = Inr text \<longrightarrow>
            fst (summarize_meeting_notes env w raw)
              = Inr ''An error occurred while summarizing the meeting notes.'')
       \<and> fst (infer_meeting_notes_file_name env w' notes) = Inr ''meeting-notes-summary.txt''"
proof -
  have down: "\<exists>e. fst (call_bedrock env v conversation) = Inl e" for v conversation
    using raises by (simp add: call_bedrock_def)
  have "fst (summarize_meeting_notes env w raw) = Inr ''An error occurred while summarizing the meeting notes.''"
    if extracted: "extract_text_from_multidata env raw = Inr t" for t
    using down [of w "[user_turn (summarization_prompt t)]"]
    by (auto simp: summarize_after_extraction [OF extracted] round_trip_cases)
  moreover have "fst (infer_meeting_notes_file_name env w' notes) = Inr ''meeting-notes-summary.txt''"
    using down [of w' "[user_turn (file_name_prompt notes)]"]
    by (auto simp: infer_meeting_notes_file_name_def round_trip_cases)
  ultimately show ?thesis by blast
qed

theorem C1_fallback_strings_witness:
  "converse (test_env raising_completion) = raising_completion
   \<and> extract_text_from_multidata (test_env raising_completion) [0x48, 0x69] = Inr ''Hi''
   \<and> fst (summarize_meeting_notes (test_env raising_completion) w0 [0x48, 0x69])
        = Inr ''An error occurred while summarizing the meeting notes.''
   \<and> fst (infer_meeting_notes_file_name (test_env raising_completion) w0 ''Hi'')
        = Inr ''meeting-notes-summary.txt''"
proof -
  have raises: "\<forall>n req. \<exists>e. converse (test_env raising_completion) n req = Inl e"
    by (simp add: test_env_converse raising_completion_def)
  from C1_fallback_strings [OF raises, where raw = "[0x48, 0x69]" and w = w0 and w' = w0
      and ?notes = "''Hi''"]
  show ?thesis by (simp add: hi_extracted test_env_converse)
qed

theorem C1_counterexample:
  "converse (test_env raising_completion) = raising_completion
   \<and> summarize_meeting_notes (test_env raising_completion) w0 [0xFF] = (Inl invalid_start_byte, w0)
   \<and> fst (summarize_meeting_notes (test_env raising_completion) w0 [0xFF])
        \<noteq> Inr ''An error occurred while summarizing the meeting notes.''"
  by (simp add: summarize_cases ff_not_extracted test_env_converse)

text \<open>
  Claim C2, as amended.  When text extraction fails on a payload,
  \<open>summarize_meeting_notes\<close> does not catch the failure: it raises the exception of the
  extractor to its caller, with no call to the completion capability and nothing
  logged.  In the handler that exception reaches the \<open>except\<close> clause, so the response
  has status 500 and carries the message of the exception.
\<close>

theorem C2_extraction_failure_propagates:
  assumes "extract_text_from_multidata env raw = Inl e"
  shows "summarize_meeting_notes env w raw = (Inl e, w)
       \<and> (event ''body'' = Some s \<and> b64decode env s = Inr raw \<and> raw \<noteq> [] \<longrightarrow>
            lambda_handler env w event =
              (\<lparr>statusCode = 500, body = json_dumps env [(''error'', exn_str e)]\<rparr>,
               w\<lparr>console := console w @ [Print (''Error in lambda_handler: '' @ exn_str e), Print_exc e]\<rparr>))"
proof -
  have raised: "summarize_meeting_notes env w raw = (Inl e, w)"
    using assms by (simp add: summarize_meeting_notes_def)
  then show ?thesis
    by (auto simp: handler_after_decoding handler_except_def log_error_def)
qed

theorem C2_extraction_failure_propagates_witness:
  "extract_text_from_multidata (test_env (replying_completion ''SUMMARY'' ''my-file.txt'')) [0xFF]
     = Inl invalid_start_byte
   \<and> summarize_meeting_notes (test_env (replying_completion ''SUMMARY'' ''my-file.txt'')) w0 [0xFF]
     = (Inl invalid_start_byte, w0)
   \<and> lambda_handler (test_env (replying_completion ''SUMMARY'' ''my-file.txt'')) w0 [''body'' \<mapsto> ''/w=='']
     = (\<lparr>statusCode = 500, body = json_plain [(''error'', exn_str invalid_start_byte)]\<rparr>,
        w0\<lparr>console := console w0 @
             [Print (''Error in lambda_handler: '' @ exn_str invalid_start_byte),
              Print_exc invalid_start_byte]\<rparr>)"
  using C2_extraction_failure_propagates
    [where env = "test_env (replying_completion ''SUMMARY'' ''my-file.txt'')" and raw = "[0xFF]"
       and e = invalid_start_byte and w = w0 and event = "[''body'' \<mapsto> ''/w=='']"
       and s = "''/w==''"]
  by (simp add: ff_not_extracted test_env_fields b64_table_examples)

theorem C2_counterexample:
  "extract_text_from_multidata (test_env (replying_completion ''SUMMARY'' ''my-file.txt'')) [0xFF]
     = Inl invalid_start_byte
   \<and> fst (summarize_meeting_notes (test_env (replying_completion ''SUMMARY'' ''my-file.txt'')) w0 [0xFF])
     \<noteq> Inr ''An error occurred while summarizing the meeting notes.''"
  by (simp add: summarize_cases ff_not_extracted)

section \<open>The handler\<close>

text \<open>
  Claim C5.  The four kinds of response of \<open>lambda_handler\<close>.  A request without the key
  \<open>body\<close> gets status 400 and the JSON object \<open>{"error": "Missing required parameter: body"}\<close>.
  A body that decodes to no bytes gets status 400 and \<open>{"error": "Transcript content is empty"}\<close>.
  An exception that reaches the handler (from the base64 decoder, from the summarization
  stage, or from the store) gets status 500 and \<open>{"error": str(e)}\<close>.  Otherwise the
  status is 200 and the body is the summary itself, not passed through \<open>json.dumps\<close>.
  By \<open>infer_never_raises\<close> the file-name stage always returns, so the cases are all
  there are.
\<close>

theorem C5_handler_responses:
  "(event ''body'' = None \<longrightarrow>
      lambda_handler env w event =
        (\<lparr>statusCode = 400, body = json_dumps env [(''error'', ''Missing required parameter: body'')]\<rparr>, w))
   \<and> (event ''body'' = Some s \<and> b64decode env s = Inr [] \<longrightarrow>
      lambda_handler env w event =
        (\<lparr>statusCode = 400, body = json_dumps env [(''error'', ''Transcript content is empty'')]\<rparr>, w))
   \<and> (event ''body'' = Some s \<and> b64decode env s = Inl e \<longrightarrow>
      fst (lambda_handler env w event) =
        \<lparr>statusCode = 500, body = json_dumps env [(''error'', exn_str e)]\<rparr>)
   \<and> (event ''body'' = Some s \<and> b64decode env s = Inr raw \<and> raw \<noteq> []
        \<and> summarize_meeting_notes env w raw = (Inl e, w1) \<longrightarrow>
      fst (lambda_handler env w event) =
        \<lparr>statusCode = 500, body = json_dumps env [(''error'', exn_str e)]\<rparr>)
   \<and> (event ''body'' = Some s \<and> b64decode env s = Inr raw \<and> raw \<noteq> []
        \<and> summarize_meeting_notes env w raw = (Inr summary, w1)
        \<and> infer_meeting_notes_file_name env w1 summary = (Inr file_name, w2)
        \<and> put_object env bucket_name (s3_key (now w2) file_name) summary = Some e \<longrightarrow>
      fst (lambda_handler env w event) =
        \<lparr>statusCode = 500, body = json_dumps env [(''error'', exn_str e)]\<rparr>)
   \<and> (event ''body'' = Some s \<and> b64decode env s = Inr raw \<and> raw \<noteq> []
        \<and> summarize_meeting_notes env w raw = (Inr summary, w1)
        \<and> infer_meeting_notes_file_name env w1 summary = (Inr file_name, w2)
        \<and> put_object env bucket_name (s3_key (now w2) file_name) summary = None \<longrightarrow>
      fst (lambda_handler env w event) = \<lparr>statusCode = 200, body = summary\<rparr>)"
proof -
  have missing: "lambda_handler env w event =
        (\<lparr>statusCode = 400, body = json_dumps env [(''error'', ''Missing required parameter: body'')]\<rparr>, w)"
    if "event ''body'' = None"
    using that by (simp add: lambda_handler_def validate_input_def PARAM_TRANSCRIPT_def dom_def)
  have decoded: "lambda_handler env w event =
        (case b64decode env s of
           Inl e \<Rightarrow> handler_except env w e
         | Inr message \<Rightarrow>
             if message = [] then
               (\<lparr>statusCode = 400, body = json_dumps env [(''error'', ''Transcript content is empty'')]\<rparr>, w)
             else lambda_handler env w event)"
    if "event ''body'' = Some s"
    using that
    by (simp add: lambda_handler_def validate_input_def PARAM_TRANSCRIPT_def subscript_def dom_def
             split: sum.splits)
  show ?thesis
    using missing decoded
    by (auto simp: handler_after_decoding handler_except_def upload_def)
qed

theorem C5_handler_responses_witness:
  "lambda_handler (test_env (replying_completion ''SUMMARY'' ''my-file.txt'')) w0 Map.empty
     = (\<lparr>statusCode = 400, body = json_plain [(''error'', ''Missing required parameter: body'')]\<rparr>, w0)
   \<and> lambda_handler (test_env (replying_completion ''SUMMARY'' ''my-file.txt'')) w0 [''body'' \<mapsto> []]
     = (\<lparr>statusCode = 400, body = json_plain [(''error'', ''Transcript content is empty'')]\<rparr>, w0)
   \<and> fst (lambda_handler (test_env (replying_completion ''SUMMARY'' ''my-file.txt'')) w0 [''body'' \<mapsto> ''abc''])
     = \<lparr>statusCode = 500, body = json_plain [(''error'', ''Incorrect padding'')]\<rparr>
   \<and> fst (lambda_handler (test_env (replying_completion ''SUMMARY'' ''my-file.txt'')) w0 [''body'' \<mapsto> ''/w==''])
     = \<lparr>statusCode = 500, body = json_plain [(''error'', exn_str invalid_start_byte)]\<rparr>
   \<and> fst (lambda_handler refusing_store_env w0 [''body'' \<mapsto> ''SGk=''])
     = \<lparr>statusCode = 500, body = json_plain [(''error'', ''AccessDenied'')]\<rparr>
   \<and> fst (lambda_handler (test_env (replying_completion ''SUMMARY'' ''my-file.txt'')) w0 [''body'' \<mapsto> ''SGk=''])
     = \<lparr>statusCode = 200, body = ''SUMMARY''\<rparr>"
proof -
  let ?E = "test_env (replying_completion ''SUMMARY'' ''my-file.txt'')"
  let ?w1 = "w0\<lparr>converse_calls := 1\<rparr>" and ?w2 = "w0\<lparr>converse_calls := 2\<rparr>"
  have raised: "summarize_meeting_notes ?E w0 [0xFF] = (Inl invalid_start_byte, w0)"
    by (simp add: summarize_cases ff_not_extracted)
  have missing: "lambda_handler ?E w0 Map.empty
     = (\<lparr>statusCode = 400, body = json_plain [(''error'', ''Missing required parameter: body'')]\<rparr>, w0)"
    using C5_handler_responses [where env = ?E and w = w0 and event = Map.empty and s = "[]"
        and e = access_denied and raw = "[]" and ?w1.0 = w0 and summary = "[]" and file_name = "[]" and ?w2.0 = w0]
    by (simp add: test_env_fields)
  have emptied: "lambda_handler ?E w0 [''body'' \<mapsto> []]
     = (\<lparr>statusCode = 400, body = json_plain [(''error'', ''Transcript content is empty'')]\<rparr>, w0)"
    using C5_handler_responses [where env = ?E and w = w0 and event = "[''body'' \<mapsto> []]" and s = "[]"
        and e = access_denied and raw = "[]" and ?w1.0 = w0 and summary = "[]" and file_name = "[]" and ?w2.0 = w0]
    by (simp add: test_env_fields b64_table_examples)
  have padding: "fst (lambda_handler ?E w0 [''body'' \<mapsto> ''abc''])
     = \<lparr>statusCode = 500, body = json_plain [(''error'', ''Incorrect padding'')]\<rparr>"
    using C5_handler_responses [where env = ?E and w = w0 and event = "[''body'' \<mapsto> ''abc'']" and s = "''abc''"
        and e = "Exception ''binascii.Error'' ''Incorrect padding''" and raw = "[]" and ?w1.0 = w0
        and summary = "[]" and file_name = "[]" and ?w2.0 = w0]
    by (simp add: test_env_fields b64_table_examples)
  have undecodable: "fst (lambda_handler ?E w0 [''body'' \<mapsto> ''/w==''])
     = \<lparr>statusCode = 500, body = json_plain [(''error'', exn_str invalid_start_byte)]\<rparr>"
    using C5_handler_responses [where env = ?E and w = w0 and event = "[''body'' \<mapsto> ''/w=='']" and s = "''/w==''"
        and e = invalid_start_byte and raw = "[0xFF]" and ?w1.0 = w0
        and summary = "[]" and file_name = "[]" and ?w2.0 = w0]
    by (simp add: test_env_fields b64_table_examples raised)
  have refused: "fst (lambda_handler refusing_store_env w0 [''body'' \<mapsto> ''SGk=''])
     = \<lparr>statusCode = 500, body = json_plain [(''error'', ''AccessDenied'')]\<rparr>"
    using C5_handler_responses [where env = refusing_store_env and w = w0 and event = "[''body'' \<mapsto> ''SGk='']"
        and s = "''SGk=''" and e = access_denied and raw = "[0x48, 0x69]" and ?w1.0 = ?w1
        and summary = "''SUMMARY''" and file_name = "''my-file.txt''" and ?w2.0 = ?w2]
    by (simp add: refusing_store_env_fields b64_table_examples refusing_store_env_stages access_denied_def)
  have stored: "fst (lambda_handler ?E w0 [''body'' \<mapsto> ''SGk=''])
     = \<lparr>statusCode = 200, body = ''SUMMARY''\<rparr>"
    using C5_handler_responses [where env = ?E and w = w0 and event = "[''body'' \<mapsto> ''SGk='']"
        and s = "''SGk=''" and e = access_denied and raw = "[0x48, 0x69]" and ?w1.0 = ?w1
        and summary = "''SUMMARY''" and file_name = "''my-file.txt''" and ?w2.0 = ?w2]
    by (simp add: test_env_fields b64_table_examples summary_of_hi file_name_of_summary)
  from missing emptied padding undecodable refused stored show ?thesis by blast
qed

text \<open>
  Claim C9.  A \<open>body\<close> that is present but that the base64 decoder rejects is not a
  validation error: validation passes, the decoder raises inside the \<open>try\<close> block, and
  the response has status 500 (never 400) with the message of the decoder's exception.
  Validation itself answers only to the absence of the key.
\<close>

theorem C9_undecodable_body_is_500:
  assumes "event ''body'' = Some s" and "b64decode env s = Inl e"
  shows "validate_input env event = None
       \<and> lambda_handler env w event =
           (\<lparr>statusCode = 500, body = json_dumps env [(''error'', exn_str e)]\<rparr>,
            w\<lparr>console := console w @ [Print (''Error in lambda_handler: '' @ exn_str e), Print_exc e]\<rparr>)
       \<and> statusCode (fst (lambda_handler env w event)) \<noteq> 400
       \<and> (\<forall>other. validate_input env other = None \<longleftrightarrow> other ''body'' \<noteq> None)"
  using assms
  by (auto simp: lambda_handler_def validate_input_def PARAM_TRANSCRIPT_def subscript_def dom_def
                 handler_except_def log_error_def)

theorem C9_undecodable_body_is_500_witness:
  "''abc'' \<noteq> []
   \<and> b64decode (test_env silent_completion) ''abc'' = Inl (Exception ''binascii.Error'' ''Incorrect padding'')
   \<and> validate_input (test_env silent_completion) [''body'' \<mapsto> ''abc''] = None
   \<and> lambda_handler (test_env silent_completion) w0 [''body'' \<mapsto> ''abc'']
     = (\<lparr>statusCode = 500, body = json_plain [(''error'', ''Incorrect padding'')]\<rparr>,
        w0\<lparr>console := console w0 @
             [Print ''Error in lambda_handler: Incorrect padding'',
              Print_exc (Exception ''binascii.Error'' ''Incorrect padding'')]\<rparr>)"
  using C9_undecodable_body_is_500
    [where event = "[''body'' \<mapsto> ''abc'']" and s = "''abc''" and env = "test_env silent_completion"
       and e = "Exception ''binascii.Error'' ''Incorrect padding''" and w = w0]
  by (simp add: test_env_fields b64_table_examples)

text \<open>
  Claim C10.  Whatever message the model replies with, \<open>infer_meeting_notes_file_name\<close>
  returns the text read from it by \<open>extract_text\<close> as it is: nothing is lowercased,
  hyphenated or checked.  In particular a reply whose first block carries the text \<open>t\<close>
  gives the file name \<open>t\<close>.  The handler puts that string unchanged after
  \<open>year/month/day/\<close> and writes the summary under the resulting key.
\<close>

theorem C10_file_name_is_used_verbatim:
  assumes reply: "fst (call_bedrock env w1 [user_turn (file_name_prompt summary)]) = Inr response"
    and message: "output_message response = Some reply"
  shows "infer_meeting_notes_file_name env w1 summary =
           (Inr (extract_text reply), w1\<lparr>converse_calls := Suc (converse_calls w1)\<rparr>)
       \<and> (\<forall>t d later. content reply = Some (Dict ((''text'', t) # d) # later) \<longrightarrow> extract_text reply = t)
       \<and> (event ''body'' = Some s \<and> b64decode env s = Inr raw \<and> raw \<noteq> []
            \<and> summarize_meeting_notes env w raw = (Inr summary, w1)
            \<and> put_object env bucket_name (s3_key (now w1) (extract_text reply)) summary = None \<longrightarrow>
          put_log (snd (lambda_handler env w event)) =
            put_log w1 @
              [(bucket_name,
                str_int (year (now w1)) @ ''/'' @ str_int (month (now w1)) @ ''/'' @
                  str_int (day (now w1)) @ ''/'' @ extract_text reply,
                summary)])"
proof -
  have infer: "infer_meeting_notes_file_name env w1 summary =
           (Inr (extract_text reply), w1\<lparr>converse_calls := Suc (converse_calls w1)\<rparr>)"
    using reply message by (simp add: infer_cases)
  have verbatim: "extract_text reply = t" if "content reply = Some (Dict ((''text'', t) # d) # later)"
    for t d later
    using that by (simp add: extract_text_def block_text_def)
  have "put_log (snd (lambda_handler env w event)) =
            put_log w1 @ [(bucket_name, s3_key (now w1) (extract_text reply), summary)]"
    if "event ''body'' = Some s" "b64decode env s = Inr raw" "raw \<noteq> []"
       "summarize_meeting_notes env w raw = (Inr summary, w1)"
       "put_object env bucket_name (s3_key (now w1) (extract_text reply)) summary = None"
    using that by (simp add: handler_after_decoding infer upload_def)
  then show ?thesis using infer verbatim by (simp add: s3_key_def)
qed

theorem C10_file_name_is_used_verbatim_witness:
  "fst (call_bedrock (test_env (replying_completion ''SUMMARY'' ''a b/c.txt'')) (w0\<lparr>converse_calls := 1\<rparr>)
          [user_turn (file_name_prompt ''SUMMARY'')])
     = Inr \<lparr>output_message = Some (assistant_turn ''a b/c.txt'')\<rparr>
   \<and> infer_meeting_notes_file_name (test_env (replying_completion ''SUMMARY'' ''a b/c.txt''))
         (w0\<lparr>converse_calls := 1\<rparr>) ''SUMMARY''
     = (Inr ''a b/c.txt'', w0\<lparr>converse_calls := 2\<rparr>)
   \<and> put_log (snd (lambda_handler (test_env (replying_completion ''SUMMARY'' ''a b/c.txt'')) w0
                      [''body'' \<mapsto> ''SGk='']))
     = [(''meeting-notes-summaries-bucket'', ''2024/3/7/a b/c.txt'', ''SUMMARY'')]"
proof -
  let ?E = "test_env (replying_completion ''SUMMARY'' ''a b/c.txt'')"
  let ?w1 = "w0\<lparr>converse_calls := 1\<rparr>"
  have reply: "fst (call_bedrock ?E ?w1 [user_turn (file_name_prompt ''SUMMARY'')])
     = Inr \<lparr>output_message = Some (assistant_turn ''a b/c.txt'')\<rparr>"
    by (simp add: call_bedrock_def test_env_converse replying_completion_def)
  have text_of: "extract_text (assistant_turn ''a b/c.txt'') = ''a b/c.txt''"
    by (simp add: extract_text_def assistant_turn_def block_text_def)
  note c10 = C10_file_name_is_used_verbatim [OF reply, where reply = "assistant_turn ''a b/c.txt''"
      and event = "[''body'' \<mapsto> ''SGk='']" and s = "''SGk=''" and raw = "[0x48, 0x69]" and w = w0]
  from c10 have infer: "infer_meeting_notes_file_name ?E ?w1 ''SUMMARY'' = (Inr ''a b/c.txt'', w0\<lparr>converse_calls := 2\<rparr>)"
    by (simp add: text_of)
  from c10 have "put_log (snd (lambda_handler ?E w0 [''body'' \<mapsto> ''SGk='']))
     = [(''meeting-notes-summaries-bucket'', ''2024/3/7/a b/c.txt'', ''SUMMARY'')]"
    by (simp add: text_of test_env_fields b64_table_examples summary_of_hi bucket_name_def
          s3_key_def str_int_def str_nat.simps digit_def w0_fields)
  with reply infer show ?thesis by simp
qed

section \<open>The storage key\<close>

text \<open>
  Claim C6.  The key is \<open>year/month/day/file_name\<close> with each calendar field rendered as
  a plain decimal numeral: a month from 1 to 12 and a day from 1 to 31 take one digit
  below ten and two digits otherwise, and never start with a zero.  For 2024-03-07 and
  \<open>notes.txt\<close> the key is \<open>2024/3/7/notes.txt\<close>.  The key is a function of the timestamp
  and the file name alone.
\<close>

theorem C6_storage_key:
  "s3_key t f = str_int (year t) @ ''/'' @ str_int (month t) @ ''/'' @ str_int (day t) @ ''/'' @ f
   \<and> (1 \<le> month t \<and> month t \<le> 12 \<longrightarrow>
        length (str_int (month t)) = (if month t < 10 then 1 else 2) \<and> hd (str_int (month t)) \<noteq> CHR ''0'')
   \<and> (1 \<le> day t \<and> day t \<le> 31 \<longrightarrow>
        length (str_int (day t)) = (if day t < 10 then 1 else 2) \<and> hd (str_int (day t)) \<noteq> CHR ''0'')
   \<and> s3_key \<lparr>year = 2024, month = 3, day = 7\<rparr> ''notes.txt'' = ''2024/3/7/notes.txt''"
proof -
  have example: "s3_key \<lparr>year = 2024, month = 3, day = 7\<rparr> ''notes.txt'' = ''2024/3/7/notes.txt''"
    by (simp add: s3_key_def str_int_def str_nat.simps digit_def)
  have "length (str_int i) = (if i < 10 then 1 else 2) \<and> hd (str_int i) \<noteq> CHR ''0''"
    if "1 \<le> i" "i \<le> 31" for i
    using unpadded [of i] that by simp
  then show ?thesis using example by (simp add: s3_key_def)
qed

theorem C6_storage_key_witness:
  "s3_key \<lparr>year = 2024, month = 11, day = 5\<rparr> ''notes.txt'' = ''2024/11/5/notes.txt''
   \<and> length (str_int 11) = 2 \<and> hd (str_int 11) \<noteq> CHR ''0''
   \<and> length (str_int 5) = 1 \<and> hd (str_int 5) \<noteq> CHR ''0''"
  using C6_storage_key [where t = "\<lparr>year = 2024, month = 11, day = 5\<rparr>" and f = "''notes.txt''"]
  by (simp add: str_int_def str_nat.simps digit_def)

end
